theory Spec2Isabelle
  imports Main
begin

section \<open>Rate limiter (src/middleware/rateLimiter.js)\<close>

text \<open>
  Instants are milliseconds since the epoch, as \<^verbatim>\<open>Date.now()\<close> returns them, and
  token counts are integers. A caller's record holds the timestamps of its admitted
  requests in insertion order and its burst tokens.
\<close>

record client_record =
  requests :: "int list"
  burstTokens :: int

record RateLimiter =
  requestsPerMinute :: int
  burst :: int

type_synonym clients = "string \<rightharpoonup> client_record"

text \<open>
  \<^verbatim>\<open>Math.min()\<close> of no arguments is \<^verbatim>\<open>Infinity\<close>; the numbers of a decision are
  therefore integers or \<^verbatim>\<open>Infinity\<close>.
\<close>

datatype jsnum = Finite int | Infinity

record decision =
  allowed :: bool
  reason :: "string option"
  remaining :: int
  resetTime :: jsnum
  retryAfter :: "jsnum option"

definition tokenRestoreInterval :: int where
  "tokenRestoreInterval = 10000"

text \<open>\<^verbatim>\<open>Math.ceil(x / 1000)\<close> on an integer number of milliseconds.\<close>

definition ceil_div :: "int \<Rightarrow> int \<Rightarrow> int" where
  "ceil_div x d = - ((- x) div d)"

text \<open>The get-or-create step of \<^verbatim>\<open>checkLimit\<close> (lines 26 to 34).\<close>

definition getClient :: "RateLimiter \<Rightarrow> string \<Rightarrow> clients \<Rightarrow> client_record" where
  "getClient L clientId cs =
     (case cs clientId of
        None \<Rightarrow> \<lparr>requests = [], burstTokens = burst L\<rparr>
      | Some client \<Rightarrow> client)"

text \<open>
  Lines 36 to 45: drop the timestamps outside the window, then restore burst tokens,
  one per ten seconds since the latest request that is still in the window.
\<close>

definition refill :: "RateLimiter \<Rightarrow> int \<Rightarrow> client_record \<Rightarrow> client_record" where
  "refill L now client =
     (let windowStart = now - 60000;
          reqs = filter (\<lambda>timestamp. timestamp > windowStart) (requests client);
          tokensSinceLastRequest =
            (case reqs of
               [] \<Rightarrow> burst L
             | r # rs \<Rightarrow> (now - fold max rs r) div tokenRestoreInterval)
      in \<lparr>requests = reqs,
          burstTokens = min (burst L) (burstTokens client + tokensSinceLastRequest)\<rparr>)"

text \<open>Lines 47 to 83: the three outcomes, on the record as \<open>refill\<close> left it.\<close>

definition decide :: "RateLimiter \<Rightarrow> int \<Rightarrow> client_record \<Rightarrow> client_record \<times> decision" where
  "decide L now client =
     (if burstTokens client \<le> 0 then
        (client,
         \<lparr>allowed = False, reason = Some ''burst_limit_exceeded'', remaining = 0,
          resetTime = Finite (now + tokenRestoreInterval),
          retryAfter = Some (Finite (tokenRestoreInterval div 1000))\<rparr>)
      else if int (length (requests client)) \<ge> requestsPerMinute L then
        (let resetTime =
               (case requests client of
                  [] \<Rightarrow> Infinity
                | r # rs \<Rightarrow> Finite (fold min rs r + 60000))
         in (client,
             \<lparr>allowed = False, reason = Some ''rate_limit_exceeded'', remaining = 0,
              resetTime = resetTime,
              retryAfter =
                Some (case resetTime of
                        Infinity \<Rightarrow> Infinity
                      | Finite t \<Rightarrow> Finite (ceil_div (t - now) 1000))\<rparr>))
      else
        (let client' = \<lparr>requests = requests client @ [now],
                        burstTokens = burstTokens client - 1\<rparr>
         in (client',
             \<lparr>allowed = True, reason = None,
              remaining = min (requestsPerMinute L - int (length (requests client')))
                              (burstTokens client'),
              resetTime = Finite ((now - 60000) + 60000),
              retryAfter = None\<rparr>)))"

definition checkLimit :: "RateLimiter \<Rightarrow> int \<Rightarrow> string \<Rightarrow> clients \<Rightarrow> clients \<times> decision" where
  "checkLimit L now clientId cs =
     (let (client', d) = decide L now (refill L now (getClient L clientId cs))
      in (cs(clientId \<mapsto> client'), d))"

text \<open>
  \<^verbatim>\<open>cleanup\<close> (lines 89 to 99): a caller with no timestamp after the cutoff is deleted.
\<close>

definition cleanup :: "int \<Rightarrow> clients \<Rightarrow> clients" where
  "cleanup now cs =
     (let cutoff = now - 300000
      in (\<lambda>clientId.
            case cs clientId of
              None \<Rightarrow> None
            | Some client \<Rightarrow>
                if list_ex (\<lambda>timestamp. timestamp > cutoff) (requests client)
                then Some client else None))"

definition resetClient :: "string \<Rightarrow> clients \<Rightarrow> clients \<times> bool" where
  "resetClient clientId cs =
     (case cs clientId of
        None \<Rightarrow> (cs, False)
      | Some _ \<Rightarrow> (cs(clientId := None), True))"

text \<open>
  \<^verbatim>\<open>createRateLimitMiddleware\<close> (lines 179 to 194) throws on a denial. An error object is
  its message and its \<^verbatim>\<open>code\<close> property, when it has one.
\<close>

record tool_error =
  err_message :: string
  err_code :: "string option"

definition rateLimitMiddleware ::
  "RateLimiter \<Rightarrow> int \<Rightarrow> string \<Rightarrow> clients \<Rightarrow> (tool_error + decision) \<times> clients" where
  "rateLimitMiddleware L now clientId cs =
     (let (cs', result) = checkLimit L now clientId cs
      in if \<not> allowed result then
           (Inl \<lparr>err_message = ''Rate limit exceeded: '' @
                    (case reason result of Some r \<Rightarrow> r | None \<Rightarrow> ''undefined''),
                 err_code = Some ''RATE_LIMIT_EXCEEDED''\<rparr>, cs')
         else (Inr result, cs'))"

section \<open>Papertrail client (src/papertrailClient.js)\<close>

subsection \<open>The environment: clock and network\<close>

text \<open>
  The client reads the clock (\<^verbatim>\<open>Date.now()\<close>), fetches and sleeps. The environment is a
  state: the clock in milliseconds, the number of fetches made so far and the trace of
  fetches and sleeps. The network is a function giving, for the k-th fetch, how long it
  takes and how it ends. The clock advances during a fetch and during a sleep.
\<close>

text \<open>
  A search query is the one string whose characters the code looks at (it is trimmed), so
  it is modelled as JavaScript has it: a list of UTF-16 code units, each a number below
  65536. The other strings are compared or passed along whole.
\<close>

type_synonym jsstring = "nat list"

record event =
  ev_id :: int
  received_at :: string
  hostname :: string
  program :: string
  ev_message :: string
  severity :: int

text \<open>
  A parsed response body: \<^verbatim>\<open>null\<close>, or a value whose properties \<^verbatim>\<open>events\<close> and
  \<^verbatim>\<open>total_events\<close> are present or not.
\<close>

datatype payload =
  JsonNull
| JsonObject (payload_events: "event list option") (payload_total_events: "int option")

text \<open>
  A fetch is rejected with a message (no connection, timeout), or gives a response: its
  status, what \<^verbatim>\<open>response.text()\<close> gives and what \<^verbatim>\<open>response.json()\<close> gives, each of
  them a message (\<open>Inl\<close>) when the promise is rejected.
\<close>

datatype fetch_outcome =
  Rejected string
| Response (status: int) (body_text: "string + string") (body_json: "string + payload")

record search_params =
  q :: jsstring
  min_time :: int
  max_time :: int
  limit :: int
  system_id :: "int option"
  group_id :: "int option"

datatype endpoint = EventsSearch search_params | Path string

datatype effect = Fetch endpoint | Sleep int

record world =
  clock :: int
  fetched :: nat
  trace :: "effect list"

type_synonym network = "nat \<Rightarrow> int \<times> fetch_outcome"

definition fetch :: "network \<Rightarrow> endpoint \<Rightarrow> world \<Rightarrow> fetch_outcome \<times> world" where
  "fetch net url w =
     (snd (net (fetched w)),
      w\<lparr>clock := clock w + fst (net (fetched w)),
        fetched := Suc (fetched w),
        trace := trace w @ [Fetch url]\<rparr>)"

definition sleep :: "int \<Rightarrow> world \<Rightarrow> world" where
  "sleep ms w = w\<lparr>clock := clock w + ms, trace := trace w @ [Sleep ms]\<rparr>"

subsection \<open>Numbers in messages\<close>

text \<open>An integer as \<^verbatim>\<open>String\<close> writes it into a template: in decimal.\<close>

function decimal :: "nat \<Rightarrow> string" where
  "decimal n =
     (if 10 \<le> n then decimal (n div 10) else []) @ [''0123456789'' ! (n mod 10)]"
  by pat_completeness auto
termination
  by (relation "measure id") auto

definition number_text :: "int \<Rightarrow> string" where
  "number_text i = (if 0 \<le> i then decimal (nat i) else CHR ''-'' # decimal (nat (- i)))"

subsection \<open>makeRequest\<close>

record PapertrailClient =
  apiToken :: string
  baseUrl :: string
  timeout :: int
  maxRetries :: nat

definition response_ok :: "int \<Rightarrow> bool" where
  "response_ok st \<longleftrightarrow> 200 \<le> st \<and> st \<le> 299"

text \<open>
  The \<^verbatim>\<open>try\<close> block of one attempt, after the fetch: an error message (what the
  \<^verbatim>\<open>catch\<close> receives) or the parsed body.
\<close>

definition attempt_result :: "fetch_outcome \<Rightarrow> string + payload" where
  "attempt_result outcome =
     (case outcome of
        Rejected msg \<Rightarrow> Inl msg
      | Response st text json \<Rightarrow>
          if \<not> response_ok st then
            (case text of
               Inl msg \<Rightarrow> Inl msg
             | Inr errorText \<Rightarrow>
                 Inl (''Papertrail API error ('' @ number_text st @ ''): '' @ errorText))
          else json)"

text \<open>
  The retry loop, \<^verbatim>\<open>for (let attempt = 1; attempt <= this.maxRetries; attempt++)\<close>, and
  the \<^verbatim>\<open>throw\<close> after it. With no attempt made \<^verbatim>\<open>lastError\<close> is undefined and reading
  its message is a TypeError.
\<close>

function attempts ::
  "PapertrailClient \<Rightarrow> network \<Rightarrow> endpoint \<Rightarrow> nat \<Rightarrow> string option \<Rightarrow> world
     \<Rightarrow> (string + payload) \<times> world" where
  "attempts c net url attempt lastError w =
     (if attempt \<le> maxRetries c then
        (let (outcome, w1) = fetch net url w
         in case attempt_result outcome of
              Inr json \<Rightarrow> (Inr json, w1)
            | Inl error \<Rightarrow>
                attempts c net url (attempt + 1) (Some error)
                  (if attempt < maxRetries c
                   then sleep (2 ^ (attempt - 1) * 1000) w1 else w1))
      else
        (case lastError of
           None \<Rightarrow> (Inl ''Cannot read properties of undefined (reading 'message')'', w)
         | Some msg \<Rightarrow>
             (Inl (''Failed after '' @ decimal (maxRetries c) @ '' attempts: '' @ msg),
              w)))"
  by pat_completeness auto
termination
  by (relation "measure (\<lambda>(c, net, url, attempt, lastError, w). maxRetries c + 1 - attempt)")
     auto

definition makeRequest ::
  "PapertrailClient \<Rightarrow> network \<Rightarrow> endpoint \<Rightarrow> world \<Rightarrow> (string + payload) \<times> world" where
  "makeRequest c net url w = attempts c net url 1 None w"

subsection \<open>searchLogs\<close>

record search_options =
  opt_minTime :: "int option"
  opt_maxTime :: "int option"
  opt_limit :: "int option"
  opt_system_id :: "int option"
  opt_group_id :: "int option"

record time_range =
  minTime :: int
  maxTime :: int

record metadata =
  searchTime :: int
  meta_limit :: int

record search_result =
  success :: bool
  error :: "string option"
  events :: "event list"
  total :: int
  query :: jsstring
  timeRange :: "time_range option"
  metadata :: "metadata option"

definition getDefaultMinTime :: "world \<Rightarrow> int" where
  "getDefaultMinTime w = (clock w - 60 * 60 * 1000) div 1000"

definition getDefaultMaxTime :: "world \<Rightarrow> int" where
  "getDefaultMaxTime w = clock w div 1000"

text \<open>\<^verbatim>\<open>x || d\<close> on an optional number: undefined and 0 are falsy.\<close>

definition or_default :: "int option \<Rightarrow> int \<Rightarrow> int" where
  "or_default x d = (case x of None \<Rightarrow> d | Some n \<Rightarrow> if n = 0 then d else n)"

text \<open>\<^verbatim>\<open>...(x && { key: x })\<close>: the key is present when \<open>x\<close> is truthy.\<close>

definition when_truthy :: "int option \<Rightarrow> int option" where
  "when_truthy x = (case x of None \<Rightarrow> None | Some n \<Rightarrow> if n = 0 then None else Some n)"

definition search_endpoint :: "jsstring \<Rightarrow> search_options \<Rightarrow> world \<Rightarrow> endpoint" where
  "search_endpoint qry options w =
     EventsSearch
       \<lparr>q = qry,
        min_time = or_default (opt_minTime options) (getDefaultMinTime w),
        max_time = or_default (opt_maxTime options) (getDefaultMaxTime w),
        limit = or_default (opt_limit options) 100,
        system_id = when_truthy (opt_system_id options),
        group_id = when_truthy (opt_group_id options)\<rparr>"

definition failure :: "string \<Rightarrow> jsstring \<Rightarrow> search_result" where
  "failure msg qry =
     \<lparr>success = False, error = Some msg, events = [], total = 0, query = qry,
      timeRange = None, metadata = None\<rparr>"

text \<open>
  The object built after \<^verbatim>\<open>makeRequest\<close> returns; \<open>tot\<close> is the \<^verbatim>\<open>total\<close> property,
  which is where the two variants of the client differ. The defaults of the time range
  are computed here again, from the clock as it is now.
\<close>

definition found :: "jsstring \<Rightarrow> search_options \<Rightarrow> event list option \<Rightarrow> int \<Rightarrow> world \<Rightarrow> search_result" where
  "found qry options evs tot w =
     \<lparr>success = True, error = None,
      events = (case evs of None \<Rightarrow> [] | Some es \<Rightarrow> es),
      total = tot, query = qry,
      timeRange = Some \<lparr>minTime = or_default (opt_minTime options) (getDefaultMinTime w),
                        maxTime = or_default (opt_maxTime options) (getDefaultMaxTime w)\<rparr>,
      metadata = Some \<lparr>searchTime = clock w,
                       meta_limit = or_default (opt_limit options) 100\<rparr>\<rparr>"

text \<open>\<^verbatim>\<open>result.events?.length || 0\<close>\<close>

definition events_length :: "event list option \<Rightarrow> int" where
  "events_length evs = (case evs of None \<Rightarrow> 0 | Some es \<Rightarrow> int (length es))"

text \<open>
  The client of the ES module (src/tools/searchLogs.js, lines 622 to 660): the total is the number
  of events.
\<close>

definition searchLogs ::
  "PapertrailClient \<Rightarrow> network \<Rightarrow> jsstring \<Rightarrow> search_options \<Rightarrow> world \<Rightarrow> search_result \<times> world" where
  "searchLogs c net qry options w =
     (let (result, w1) = makeRequest c net (search_endpoint qry options w) w
      in case result of
           Inl msg \<Rightarrow> (failure msg qry, w1)
         | Inr JsonNull \<Rightarrow>
             (failure ''Cannot read properties of null (reading 'events')'' qry, w1)
         | Inr (JsonObject evs tot) \<Rightarrow>
             (found qry options evs (events_length evs) w1, w1))"

text \<open>
  The CommonJS client (the same file, lines 400 to 438):
  \<^verbatim>\<open>result.total_events || result.events?.length || 0\<close>.
\<close>

definition searchLogs_cjs ::
  "PapertrailClient \<Rightarrow> network \<Rightarrow> jsstring \<Rightarrow> search_options \<Rightarrow> world \<Rightarrow> search_result \<times> world" where
  "searchLogs_cjs c net qry options w =
     (let (result, w1) = makeRequest c net (search_endpoint qry options w) w
      in case result of
           Inl msg \<Rightarrow> (failure msg qry, w1)
         | Inr JsonNull \<Rightarrow>
             (failure ''Cannot read properties of null (reading 'events')'' qry, w1)
         | Inr (JsonObject evs tot) \<Rightarrow>
             (found qry options evs (or_default tot (events_length evs)) w1, w1))"

section \<open>The search tool (src/tools/searchLogs.js)\<close>

text \<open>
  The arguments of the tool, at the types its input schema declares: every property is
  optional, \<open>None\<close> when it is absent. A date string is parsed by \<^verbatim>\<open>new Date\<close>, given
  here as a function to milliseconds, \<open>None\<close> for an invalid date.
\<close>

record tool_args =
  arg_query :: "jsstring option"
  arg_minTime :: "string option"
  arg_maxTime :: "string option"
  arg_limit :: "int option"
  arg_systemId :: "int option"
  arg_groupId :: "int option"

datatype mcp_response =
  ToolSuccess search_result
| ToolFailure (failure_message: string) (failure_code: string)

definition createError :: "string \<Rightarrow> string \<Rightarrow> tool_error" where
  "createError c msg = \<lparr>err_message = msg, err_code = Some c\<rparr>"

text \<open>
  \<^verbatim>\<open>formatMcpError\<close> (src/middleware/errorHandler.js): the message and the code of the
  error, \<^verbatim>\<open>INTERNAL_ERROR\<close> when it has none. The text content, the timestamp and the
  context of the response are left out.
\<close>

definition formatMcpError :: "tool_error \<Rightarrow> mcp_response" where
  "formatMcpError e =
     ToolFailure (if err_message e = [] then ''Unknown error occurred'' else err_message e)
                 (case err_code e of None \<Rightarrow> ''INTERNAL_ERROR'' | Some c \<Rightarrow> c)"

text \<open>
  \<^verbatim>\<open>String.prototype.trim\<close> strips the white space and the line terminators of
  ECMAScript from both ends: U+0009 to U+000D, U+0020, U+00A0, U+1680, U+2000 to U+200A,
  U+2028, U+2029, U+202F, U+205F, U+3000 and U+FEFF.
\<close>

definition is_space :: "nat \<Rightarrow> bool" where
  "is_space u \<longleftrightarrow>
     (0x0009 \<le> u \<and> u \<le> 0x000D) \<or> u = 0x0020 \<or> u = 0x00A0 \<or> u = 0x1680 \<or>
     (0x2000 \<le> u \<and> u \<le> 0x200A) \<or> u = 0x2028 \<or> u = 0x2029 \<or> u = 0x202F \<or>
     u = 0x205F \<or> u = 0x3000 \<or> u = 0xFEFF"

definition trim :: "jsstring \<Rightarrow> jsstring" where
  "trim s = rev (dropWhile is_space (rev (dropWhile is_space s)))"

text \<open>
  \<^verbatim>\<open>validateArgs\<close> on the schema of the tool. The type of a value is what \<^verbatim>\<open>typeof\<close>
  says: \<^verbatim>\<open>string\<close> for a string and \<^verbatim>\<open>number\<close> for a number, compared with the type the
  schema names.
\<close>

definition quoted :: "string \<Rightarrow> string" where
  "quoted field = [CHR 0x27] @ field @ [CHR 0x27]"

definition check_required :: "string \<Rightarrow> bool \<Rightarrow> string list" where
  "check_required field present =
     (if present then [] else [''Required field '' @ quoted field @ '' is missing''])"

definition check_type :: "string \<Rightarrow> string \<Rightarrow> string \<Rightarrow> string list" where
  "check_type field expected actualType =
     (if actualType \<noteq> expected
      then [''Field '' @ quoted field @ '' must be of type '' @ expected @ '', got '' @ actualType]
      else [])"

definition check_string :: "string \<Rightarrow> 'a option \<Rightarrow> string list" where
  "check_string field v =
     (case v of None \<Rightarrow> [] | Some _ \<Rightarrow> check_type field ''string'' ''string'')"

definition check_integer :: "string \<Rightarrow> int option \<Rightarrow> int option \<Rightarrow> int option \<Rightarrow> string list" where
  "check_integer field minimum maximum v =
     (case v of
        None \<Rightarrow> []
      | Some n \<Rightarrow>
          check_type field ''integer'' ''number'' @
          (case minimum of
             None \<Rightarrow> []
           | Some lo \<Rightarrow>
               if n < lo
               then [''Field '' @ quoted field @ '' must be at least '' @ number_text lo]
               else []) @
          (case maximum of
             None \<Rightarrow> []
           | Some hi \<Rightarrow>
               if n > hi
               then [''Field '' @ quoted field @ '' must be at most '' @ number_text hi]
               else []))"

definition validateArgs :: "tool_args \<Rightarrow> string list" where
  "validateArgs args =
     check_required ''query'' (arg_query args \<noteq> None) @
     check_string ''query'' (arg_query args) @
     check_string ''minTime'' (arg_minTime args) @
     check_string ''maxTime'' (arg_maxTime args) @
     check_integer ''limit'' (Some 1) (Some 1000) (arg_limit args) @
     check_integer ''systemId'' None None (arg_systemId args) @
     check_integer ''groupId'' None None (arg_groupId args)"

fun join :: "string \<Rightarrow> string list \<Rightarrow> string" where
  "join sep [] = []"
| "join sep [x] = x"
| "join sep (x # y # ys) = x @ sep @ join sep (y # ys)"

text \<open>
  Line 77, \<^verbatim>\<open>Math.min(parseInt(args.limit) || 100, 1000)\<close>: \<^verbatim>\<open>parseInt\<close> of an absent
  limit is \<^verbatim>\<open>NaN\<close>, of an integer the integer.
\<close>

definition options_limit :: "int option \<Rightarrow> int" where
  "options_limit l = min (or_default l 100) 1000"

text \<open>
  Lines 83 to 103: a time argument that is truthy is parsed; an invalid date is an
  error, a valid one becomes whole seconds (\<^verbatim>\<open>formatTime\<close>).
\<close>

definition parse_time ::
  "(string \<Rightarrow> int option) \<Rightarrow> string \<Rightarrow> string option \<Rightarrow> tool_error + int option" where
  "parse_time parseDate msg v =
     (case v of
        None \<Rightarrow> Inr None
      | Some s \<Rightarrow>
          if s = [] then Inr None
          else (case parseDate s of
                  None \<Rightarrow> Inl (createError ''INVALID_ARGUMENTS'' msg)
                | Some ms \<Rightarrow> Inr (Some (ms div 1000))))"

text \<open>
  The query test of line 61, \<^verbatim>\<open>!args.query || args.query.trim() === ''\<close>.
\<close>

definition query_missing :: "jsstring option \<Rightarrow> bool" where
  "query_missing v = (case v of None \<Rightarrow> True | Some s \<Rightarrow> s = [] \<or> trim s = [])"

text \<open>The messages of the errors \<^verbatim>\<open>executeSearchLogs\<close> creates itself.\<close>

definition query_required_message :: string where
  "query_required_message =
     ''Query parameter is required and cannot be empty. Please provide search terms extracted from the user message.''"

definition invalid_minTime_message :: string where
  "invalid_minTime_message =
     ''Invalid minTime format. Use ISO 8601 format (e.g., 2023-12-01T10:00:00Z)''"

definition invalid_maxTime_message :: string where
  "invalid_maxTime_message =
     ''Invalid maxTime format. Use ISO 8601 format (e.g., 2023-12-01T11:00:00Z)''"

text \<open>
  \<^verbatim>\<open>executeSearchLogs\<close> (lines 55 to 169), on the callers' records and the environment.
  The arguments are \<open>None\<close> when the call passes no arguments object. The rate limiter
  is asked first, whatever the arguments. Without an arguments object every way on ends
  in the \<^verbatim>\<open>catch\<close> block, with the error of the rate limiter or with the TypeError of
  reading \<^verbatim>\<open>args.query\<close> on line 61, and the \<^verbatim>\<open>catch\<close> block reads \<^verbatim>\<open>args.query\<close> itself
  for the context of the error: it throws a TypeError and the call returns nothing
  (\<open>Inl\<close>, with the message of the TypeError; for \<^verbatim>\<open>null\<close> in place of the object
  the message names \<^verbatim>\<open>null\<close>). The formatted text of a successful
  answer is left out: the answer of the model is the search result the text is made
  from.
\<close>

definition executeSearchLogs ::
  "RateLimiter \<Rightarrow> PapertrailClient \<Rightarrow> network \<Rightarrow> (string \<Rightarrow> int option) \<Rightarrow> tool_args option
     \<Rightarrow> string \<Rightarrow> clients \<times> world \<Rightarrow> (string + mcp_response) \<times> clients \<times> world" where
  "executeSearchLogs L client net parseDate arguments clientId s =
     (let (cs, w) = s;
          (limited, cs') = rateLimitMiddleware L (clock w) clientId cs
      in case arguments of
           None \<Rightarrow> (Inl ''Cannot read properties of undefined (reading 'query')'', cs', w)
         | Some args \<Rightarrow>
            (case limited of
               Inl e \<Rightarrow> (Inr (formatMcpError e), cs', w)
             | Inr _ \<Rightarrow>
                 if query_missing (arg_query args) then
                   (Inr (formatMcpError
                           (createError ''INVALID_ARGUMENTS'' query_required_message)),
                    cs', w)
                 else
                   (case validateArgs args of
                      e # es \<Rightarrow>
                        (Inr (formatMcpError
                                (createError ''INVALID_ARGUMENTS''
                                   (''Validation failed: '' @ join '', '' (e # es)))),
                         cs', w)
                    | [] \<Rightarrow>
                        (case parse_time parseDate invalid_minTime_message
                                (arg_minTime args) of
                           Inl e \<Rightarrow> (Inr (formatMcpError e), cs', w)
                         | Inr minT \<Rightarrow>
                             (case parse_time parseDate invalid_maxTime_message
                                     (arg_maxTime args) of
                                Inl e \<Rightarrow> (Inr (formatMcpError e), cs', w)
                              | Inr maxT \<Rightarrow>
                                  (let options =
                                         \<lparr>opt_minTime = minT, opt_maxTime = maxT,
                                          opt_limit = Some (options_limit (arg_limit args)),
                                          opt_system_id = when_truthy (arg_systemId args),
                                          opt_group_id = when_truthy (arg_groupId args)\<rparr>;
                                       (result, w') =
                                         searchLogs client net
                                           (case arg_query args of None \<Rightarrow> [] | Some qry \<Rightarrow> qry)
                                           options w
                                   in if \<not> success result then
                                        (Inr (formatMcpError
                                                (createError ''API_CONNECTION_ERROR''
                                                   (''Papertrail API request failed: '' @
                                                    (case error result of
                                                       None \<Rightarrow> ''undefined''
                                                     | Some m \<Rightarrow> m)))),
                                         cs', w')
                                      else (Inr (ToolSuccess result), cs', w')))))))"

section \<open>Notions used in the statements\<close>

text \<open>
  A history of the rate limiter: calls with the clock reading of each, applied in order
  to the callers' records.
\<close>

datatype call = CheckLimit string | Cleanup | ResetClient string

fun step :: "RateLimiter \<Rightarrow> int \<times> call \<Rightarrow> clients \<Rightarrow> clients" where
  "step L (now, CheckLimit clientId) cs = fst (checkLimit L now clientId cs)"
| "step L (now, Cleanup) cs = cleanup now cs"
| "step L (now, ResetClient clientId) cs = fst (resetClient clientId cs)"

text \<open>
  Checks of one caller at the given instants, in order: for each check, the caller's
  record as the check finds it once trimmed and refilled, and the decision.
\<close>

fun checkAll ::
  "RateLimiter \<Rightarrow> string \<Rightarrow> int list \<Rightarrow> clients \<Rightarrow> (client_record \<times> decision) list" where
  "checkAll L clientId [] cs = []"
| "checkAll L clientId (now # ts) cs =
     (refill L now (getClient L clientId cs), snd (checkLimit L now clientId cs)) #
     checkAll L clientId ts (fst (checkLimit L now clientId cs))"

definition client_ok :: "RateLimiter \<Rightarrow> int \<Rightarrow> client_record \<Rightarrow> bool" where
  "client_ok L now c \<longleftrightarrow>
     0 \<le> burstTokens c \<and> burstTokens c \<le> burst L \<and> list_all (\<lambda>t. t \<le> now) (requests c)"

definition in_window :: "int \<Rightarrow> client_record \<Rightarrow> bool" where
  "in_window now c \<longleftrightarrow> list_all (\<lambda>t. now - 60000 < t \<and> t \<le> now) (requests c)"

definition clients_ok :: "RateLimiter \<Rightarrow> int \<Rightarrow> clients \<Rightarrow> bool" where
  "clients_ok L now cs \<longleftrightarrow> (\<forall>clientId c. cs clientId = Some c \<longrightarrow> client_ok L now c)"

text \<open>
  A caller's record before a check at \<open>now\<close>, when its requests so far were at least
  ten seconds apart and the last one at least ten seconds ago: at most one token is
  missing.
\<close>

definition paced :: "RateLimiter \<Rightarrow> int \<Rightarrow> client_record \<Rightarrow> bool" where
  "paced L now c \<longleftrightarrow>
     burst L - 1 \<le> burstTokens c \<and> burstTokens c \<le> burst L \<and>
     list_all (\<lambda>t. t + 10000 \<le> now) (requests c) \<and>
     sorted_wrt (\<lambda>a b. a + 10000 \<le> b) (requests c)"


text \<open>
  An attempt that fails by a transport failure or a status outside 200 to 299.
\<close>

definition attempt_fails :: "fetch_outcome \<Rightarrow> bool" where
  "attempt_fails outcome =
     (case outcome of Rejected _ \<Rightarrow> True | Response st _ _ \<Rightarrow> \<not> response_ok st)"

text \<open>The fetches and sleeps of attempts \<open>a\<close> to \<^verbatim>\<open>maxRetries\<close> when they all fail.\<close>

definition backoff_trace :: "PapertrailClient \<Rightarrow> endpoint \<Rightarrow> nat \<Rightarrow> effect list" where
  "backoff_trace c url a =
     concat (map (\<lambda>attempt. Fetch url #
                    (if attempt < maxRetries c then [Sleep (2 ^ (attempt - 1) * 1000)] else []))
                 [a..<maxRetries c + 1])"

text \<open>The error code of an answer that is a failure.\<close>

definition answer_code :: "string + mcp_response \<Rightarrow> string option" where
  "answer_code r =
     (case r of
        Inl _ \<Rightarrow> None
      | Inr (ToolSuccess _) \<Rightarrow> None
      | Inr (ToolFailure _ c) \<Rightarrow> Some c)"

text \<open>The limits of the search requests in a trace, in the order they were sent.\<close>

fun sent_limits :: "effect list \<Rightarrow> int list" where
  "sent_limits [] = []"
| "sent_limits (Fetch (EventsSearch p) # es) = limit p # sent_limits es"
| "sent_limits (e # es) = sent_limits es"

subsection \<open>Concrete inputs\<close>

definition client3 :: PapertrailClient where
  "client3 = \<lparr>apiToken = ''token'', baseUrl = ''https://papertrailapp.com/api/v1'',
              timeout = 30000, maxRetries = 3\<rparr>"

definition world0 :: world where
  "world0 = \<lparr>clock = 1700000000000, fetched = 0, trace = []\<rparr>"

definition no_options :: search_options where
  "no_options = \<lparr>opt_minTime = None, opt_maxTime = None, opt_limit = None,
                 opt_system_id = None, opt_group_id = None\<rparr>"

text \<open>The query \<^verbatim>\<open>error\<close>, and a query of a space and a no-break space.\<close>

definition error_query :: jsstring where
  "error_query = [0x65, 0x72, 0x72, 0x6F, 0x72]"

definition blank_query :: jsstring where
  "blank_query = [0x20, 0xA0]"

definition query_only :: "jsstring option \<Rightarrow> tool_args" where
  "query_only qry = \<lparr>arg_query = qry, arg_minTime = None, arg_maxTime = None,
                     arg_limit = None, arg_systemId = None, arg_groupId = None\<rparr>"

text \<open>A date parser that finds every string invalid.\<close>

definition no_dates :: "string \<Rightarrow> int option" where
  "no_dates = (\<lambda>s. None)"

definition event1 :: event where
  "event1 = \<lparr>ev_id = 1, received_at = ''2023-11-14T22:13:20Z'', hostname = ''web-1'',
             program = ''app'', ev_message = ''payment error'', severity = 3\<rparr>"

text \<open>Every fetch takes 200 ms and answers 500.\<close>

definition net500 :: network where
  "net500 = (\<lambda>k. (200, Response 500 (Inr ''Internal Server Error'') (Inl ''Unexpected token'')))"

text \<open>The first fetch times out after 400 ms, the others answer 200 with \<open>body\<close>.\<close>

definition net_retry :: "payload \<Rightarrow> network" where
  "net_retry body =
     (\<lambda>k. if k = 0 then (400, Rejected ''network timeout'')
          else (100, Response 200 (Inr ''{}'') (Inr body)))"

text \<open>Every fetch takes 100 ms and answers 200 with \<open>body\<close>.\<close>

definition net200 :: "payload \<Rightarrow> network" where
  "net200 body = (\<lambda>k. (100, Response 200 (Inr ''{}'') (Inr body)))"

definition no_clients :: clients where
  "no_clients = Map.empty"

definition limiter60 :: RateLimiter where
  "limiter60 = \<lparr>requestsPerMinute = 60, burst = 10\<rparr>"

definition limiter_burst1 :: RateLimiter where
  "limiter_burst1 = \<lparr>requestsPerMinute = 60, burst = 1\<rparr>"

definition limiter_rpm2 :: RateLimiter where
  "limiter_rpm2 = \<lparr>requestsPerMinute = 2, burst = 5\<rparr>"

text \<open>The callers' records after one check at 0 ms, and after a second one at 1000 ms.\<close>

definition once :: "RateLimiter \<Rightarrow> clients" where
  "once L = fst (checkLimit L 0 ''default'' no_clients)"

definition twice :: "RateLimiter \<Rightarrow> clients" where
  "twice L = fst (checkLimit L 1000 ''default'' (once L))"

definition idle_clients :: clients where
  "idle_clients = no_clients(''default'' \<mapsto> \<lparr>requests = [1000, 2000], burstTokens = 3\<rparr>)"

definition history1 :: "(int \<times> call) list" where
  "history1 = [(0, CheckLimit ''default''), (30000, CheckLimit ''default''), (50000, Cleanup)]"

text \<open>Two checks of one caller between which the clock is set back by 50 seconds.\<close>

definition history_back :: "(int \<times> call) list" where
  "history_back = [(50000, CheckLimit ''default''), (0, CheckLimit ''default'')]"

section \<open>Properties of the rate limiter\<close>

lemmas limiter_eval =
  checkLimit_def decide_def refill_def getClient_def tokenRestoreInterval_def ceil_div_def

text \<open>
  Claim C3, as the code has it. A denied \<^verbatim>\<open>checkLimit\<close> carries the reason
  \<^verbatim>\<open>burst_limit_exceeded\<close> when the caller's burst tokens, once refilled, are at most 0,
  and otherwise the reason \<^verbatim>\<open>rate_limit_exceeded\<close>, and then the window holds at least
  \<^verbatim>\<open>requestsPerMinute\<close> timestamps. The burst test comes first.
\<close>

theorem checkLimit_denied_reason:
  assumes "checkLimit L now clientId cs = (cs', d)" and "\<not> allowed d"
  shows "(burstTokens (refill L now (getClient L clientId cs)) \<le> 0 \<longrightarrow>
            reason d = Some ''burst_limit_exceeded'') \<and>
         (0 < burstTokens (refill L now (getClient L clientId cs)) \<longrightarrow>
            reason d = Some ''rate_limit_exceeded'' \<and>
            requestsPerMinute L \<le>
              int (length (requests (refill L now (getClient L clientId cs)))))"
  using assms
  by (auto simp: checkLimit_def decide_def Let_def split: if_splits prod.splits)

text \<open>
  With two requests a minute and five burst tokens, the third check within two seconds
  is denied for the window.
\<close>

theorem checkLimit_denied_reason_witness:
  "\<not> allowed (snd (checkLimit limiter_rpm2 2000 ''default'' (twice limiter_rpm2))) \<and>
   0 < burstTokens (refill limiter_rpm2 2000
         (getClient limiter_rpm2 ''default'' (twice limiter_rpm2))) \<and>
   reason (snd (checkLimit limiter_rpm2 2000 ''default'' (twice limiter_rpm2))) =
     Some ''rate_limit_exceeded''"
proof -
  have d: "\<not> allowed (snd (checkLimit limiter_rpm2 2000 ''default'' (twice limiter_rpm2)))"
    by (simp add: limiter_eval limiter_rpm2_def no_clients_def once_def twice_def)
  have t: "0 < burstTokens (refill limiter_rpm2 2000
                  (getClient limiter_rpm2 ''default'' (twice limiter_rpm2)))"
    by (simp add: limiter_eval limiter_rpm2_def no_clients_def once_def twice_def)
  show ?thesis
    using checkLimit_denied_reason [OF surjective_pairing d] d t by blast
qed

text \<open>
  Claim C3 as it is written fails: a check denied with the burst tokens at 0 does not
  carry the reason \<^verbatim>\<open>burst_exhausted\<close>, and a check denied with the window full does
  not carry the reason \<^verbatim>\<open>window_exhausted\<close>.
\<close>

theorem checkLimit_reason_counterexample:
  "\<not> allowed (snd (checkLimit limiter_burst1 1000 ''default'' (once limiter_burst1))) \<and>
   burstTokens (refill limiter_burst1 1000
      (getClient limiter_burst1 ''default'' (once limiter_burst1))) \<le> 0 \<and>
   reason (snd (checkLimit limiter_burst1 1000 ''default'' (once limiter_burst1))) \<noteq>
     Some ''burst_exhausted'' \<and>
   \<not> allowed (snd (checkLimit limiter_rpm2 2000 ''default'' (twice limiter_rpm2))) \<and>
   requestsPerMinute limiter_rpm2 \<le>
     int (length (requests (refill limiter_rpm2 2000
            (getClient limiter_rpm2 ''default'' (twice limiter_rpm2))))) \<and>
   reason (snd (checkLimit limiter_rpm2 2000 ''default'' (twice limiter_rpm2))) \<noteq>
     Some ''window_exhausted''"
  by (simp add: limiter_eval limiter_rpm2_def limiter_burst1_def no_clients_def once_def
        twice_def)

text \<open>
  Claim C9. A caller whose timestamps are all before \<open>now - 300000\<close> is deleted by
  \<^verbatim>\<open>cleanup\<close>, and a check of that caller afterwards decides and leaves the caller's
  record as a check of a caller never seen does: it finds an empty window and, for a
  burst capacity that is not negative, the full burst.
\<close>

theorem cleanup_then_first_check:
  assumes "cs clientId = Some c" and "\<forall>t \<in> set (requests c). t < now - 300000"
  shows "cleanup now cs clientId = None \<and>
         snd (checkLimit L now' clientId (cleanup now cs)) =
           snd (checkLimit L now' clientId Map.empty) \<and>
         fst (checkLimit L now' clientId (cleanup now cs)) clientId =
           fst (checkLimit L now' clientId Map.empty) clientId \<and>
         requests (refill L now' (getClient L clientId (cleanup now cs))) = [] \<and>
         (0 \<le> burst L \<longrightarrow>
            burstTokens (refill L now' (getClient L clientId (cleanup now cs))) = burst L)"
proof -
  have gone: "cleanup now cs clientId = None"
    using assms by (auto simp: cleanup_def Let_def list_ex_iff)
  then have same: "getClient L clientId (cleanup now cs) = getClient L clientId Map.empty"
    by (simp add: getClient_def)
  have fresh: "getClient L clientId Map.empty = \<lparr>requests = [], burstTokens = burst L\<rparr>"
    by (simp add: getClient_def)
  show ?thesis
    using gone same fresh
    by (simp add: checkLimit_def refill_def split: prod.splits)
qed

theorem cleanup_then_first_check_witness:
  "idle_clients ''default'' = Some \<lparr>requests = [1000, 2000], burstTokens = 3\<rparr> \<and>
   list_all (\<lambda>t. t < 400000 - 300000) (requests \<lparr>requests = [1000, 2000], burstTokens = 3\<rparr>) \<and>
   cleanup 400000 idle_clients ''default'' = None \<and>
   requests (refill limiter60 400000
      (getClient limiter60 ''default'' (cleanup 400000 idle_clients))) = [] \<and>
   burstTokens (refill limiter60 400000
      (getClient limiter60 ''default'' (cleanup 400000 idle_clients))) = 10"
proof -
  have h1: "idle_clients ''default'' = Some \<lparr>requests = [1000, 2000], burstTokens = 3\<rparr>"
    by (simp add: idle_clients_def)
  have h2: "\<forall>t \<in> set (requests \<lparr>requests = [1000, 2000], burstTokens = 3\<rparr>).
              t < 400000 - 300000"
    by simp
  show ?thesis
    using cleanup_then_first_check
            [where cs = idle_clients and L = limiter60 and now' = 400000, OF h1 h2] h1 h2
    by (simp add: limiter60_def)
qed

subsection \<open>Burst tokens of a caller that paces its requests\<close>

lemma fold_max_mem: "fold max rs (r::int) \<in> set (r # rs)"
  by (induction rs arbitrary: r) (auto simp: max_def)

lemma refill_requests:
  "requests (refill L now c) = filter (\<lambda>t. t > now - 60000) (requests c)"
  by (simp add: refill_def Let_def)

lemma refill_paced_tokens:
  assumes "1 \<le> burst L" and "paced L now c"
  shows "burstTokens (refill L now c) = burst L"
proof (cases "filter (\<lambda>t. t > now - 60000) (requests c)")
  case Nil
  with assms show ?thesis by (simp add: refill_def Let_def paced_def)
next
  case (Cons r rs)
  have "fold max rs r \<in> set (filter (\<lambda>t. t > now - 60000) (requests c))"
    using fold_max_mem[of rs r] Cons by simp
  then have "fold max rs r + 10000 \<le> now"
    using assms(2) by (simp add: paced_def list_all_iff)
  then have "1 \<le> (now - fold max rs r) div tokenRestoreInterval"
    by (simp add: tokenRestoreInterval_def)
  with assms Cons show ?thesis by (simp add: refill_def Let_def paced_def)
qed

lemma gap_span:
  fixes xs :: "int list"
  assumes "sorted_wrt (\<lambda>a b. a + g \<le> b) xs" and "xs \<noteq> []"
  shows "hd xs + g * (int (length xs) - 1) \<le> last xs"
  using assms
proof (induction xs)
  case Nil
  then show ?case by simp
next
  case (Cons x xs)
  show ?case
  proof (cases xs)
    case Nil
    then show ?thesis by simp
  next
    case (Cons y ys)
    have "hd xs + g * (int (length xs) - 1) \<le> last xs"
      using Cons.IH Cons.prems Cons by simp
    moreover have "x + g \<le> hd xs" using Cons.prems Cons by simp
    ultimately show ?thesis using Cons by (simp add: algebra_simps)
  qed
qed

lemma refill_paced_window:
  assumes "paced L now c"
  shows "length (requests (refill L now c)) \<le> 5"
proof (cases "requests (refill L now c) = []")
  case True
  then show ?thesis by simp
next
  case False
  let ?xs = "requests (refill L now c)"
  have s: "sorted_wrt (\<lambda>a b. a + 10000 \<le> b) ?xs"
    using assms by (simp add: refill_requests paced_def sorted_wrt_filter)
  have mem: "\<And>t. t \<in> set ?xs \<Longrightarrow> now - 60000 < t \<and> t + 10000 \<le> now"
    using assms by (auto simp: refill_requests paced_def list_all_iff)
  have "hd ?xs \<in> set ?xs" and "last ?xs \<in> set ?xs" using False by simp_all
  then have "now - 60000 < hd ?xs" and "last ?xs + 10000 \<le> now" using mem by blast+
  moreover have "hd ?xs + 10000 * (int (length ?xs) - 1) \<le> last ?xs"
    using gap_span[OF s False] .
  ultimately show ?thesis by simp
qed

lemma decide_paced:
  assumes "1 \<le> burst L" and "paced L now c" and "now + 10000 \<le> now'"
  shows "paced L now' (fst (decide L now (refill L now c)))"
proof -
  let ?r = "refill L now c"
  have tok: "burstTokens ?r = burst L" using refill_paced_tokens[OF assms(1,2)] .
  have la: "list_all (\<lambda>t. t + 10000 \<le> now) (requests ?r)"
    using assms(2) by (auto simp: refill_requests paced_def list_all_iff)
  have sw: "sorted_wrt (\<lambda>a b. a + 10000 \<le> b) (requests ?r)"
    using assms(2) by (simp add: refill_requests paced_def sorted_wrt_filter)
  show ?thesis
    using tok la sw assms(1,3)
    by (auto simp: decide_def Let_def paced_def list_all_iff sorted_wrt_append)
qed

lemma decide_paced_allowed:
  assumes "1 \<le> burst L" and "paced L now c"
  shows "(int (length (requests (refill L now c))) < requestsPerMinute L \<longrightarrow>
            allowed (snd (decide L now (refill L now c)))) \<and>
         (6 \<le> requestsPerMinute L \<longrightarrow> allowed (snd (decide L now (refill L now c))))"
  using refill_paced_tokens[OF assms] refill_paced_window[OF assms(2)] assms(1)
  by (auto simp: decide_def Let_def)

lemma checkLimit_decision:
  "snd (checkLimit L now clientId cs) = snd (decide L now (refill L now (getClient L clientId cs)))"
  by (simp add: checkLimit_def split: prod.splits)

lemma getClient_checkLimit:
  "getClient L clientId (fst (checkLimit L now clientId cs)) =
     fst (decide L now (refill L now (getClient L clientId cs)))"
  by (simp add: checkLimit_def getClient_def split: prod.splits)

lemma checkAll_paced:
  assumes "1 \<le> burst L"
  shows "successively (\<lambda>a b. a + 10000 \<le> b) ts \<Longrightarrow>
         (ts \<noteq> [] \<longrightarrow> paced L (hd ts) (getClient L clientId cs)) \<Longrightarrow>
         (c, d) \<in> set (checkAll L clientId ts cs) \<Longrightarrow>
         burstTokens c = burst L \<and>
         (int (length (requests c)) < requestsPerMinute L \<longrightarrow> allowed d) \<and>
         (6 \<le> requestsPerMinute L \<longrightarrow> allowed d)"
proof (induction ts arbitrary: cs)
  case Nil
  then show ?case by simp
next
  case (Cons now ts)
  have p: "paced L now (getClient L clientId cs)" using Cons.prems(2) by simp
  show ?case
  proof (cases "(c, d) = (refill L now (getClient L clientId cs), snd (checkLimit L now clientId cs))")
    case True
    then show ?thesis
      using refill_paced_tokens[OF assms p] decide_paced_allowed[OF assms p]
      by (simp add: checkLimit_decision)
  next
    case False
    then have mem: "(c, d) \<in> set (checkAll L clientId ts (fst (checkLimit L now clientId cs)))"
      using Cons.prems(3) by auto
    have s: "successively (\<lambda>a b. a + 10000 \<le> b) ts"
      using Cons.prems(1) by (cases ts) simp_all
    have "ts \<noteq> [] \<longrightarrow> paced L (hd ts) (getClient L clientId (fst (checkLimit L now clientId cs)))"
    proof
      assume "ts \<noteq> []"
      then have "now + 10000 \<le> hd ts" using Cons.prems(1) by (cases ts) simp_all
      then show "paced L (hd ts) (getClient L clientId (fst (checkLimit L now clientId cs)))"
        using decide_paced[OF assms p] by (simp add: getClient_checkLimit)
    qed
    then show ?thesis using Cons.IH[OF s _ mem] by blast
  qed
qed

text \<open>
  Claim C7. A caller never seen before is checked at instants at least ten seconds
  apart. At every check the burst tokens, once refilled, are back at the burst capacity,
  so no check is denied for the burst; a check that finds the window below
  \<^verbatim>\<open>requestsPerMinute\<close> is allowed, and with at least six requests a minute every check
  is allowed, since such a caller never has more than five timestamps in the window.
\<close>

theorem spaced_checks_keep_burst:
  assumes "1 \<le> burst L" and "cs clientId = None"
      and "successively (\<lambda>a b. a + 10000 \<le> b) ts"
      and "(c, d) \<in> set (checkAll L clientId ts cs)"
  shows "burstTokens c = burst L \<and>
         (int (length (requests c)) < requestsPerMinute L \<longrightarrow> allowed d) \<and>
         (6 \<le> requestsPerMinute L \<longrightarrow> allowed d)"
proof -
  have "paced L t (getClient L clientId cs)" for t
    using assms(1,2) by (simp add: getClient_def paced_def)
  then show ?thesis
    using checkAll_paced[OF assms(1,3) _ assms(4)] by blast
qed

theorem spaced_checks_keep_burst_witness:
  "1 \<le> burst limiter60 \<and> no_clients ''default'' = None \<and>
   successively (\<lambda>a b. a + 10000 \<le> b) [0, 10000, 25000::int] \<and>
   last (checkAll limiter60 ''default'' [0, 10000, 25000] no_clients) =
     (\<lparr>requests = [0, 10000], burstTokens = 10\<rparr>,
      \<lparr>allowed = True, reason = None, remaining = 9, resetTime = Finite 25000, retryAfter = None\<rparr>) \<and>
   burstTokens \<lparr>requests = [0, 10000], burstTokens = 10\<rparr> = burst limiter60"
proof -
  have h1: "1 \<le> burst limiter60" by (simp add: limiter60_def)
  have h2: "no_clients ''default'' = None" by (simp add: no_clients_def)
  have h3: "successively (\<lambda>a b. a + 10000 \<le> b) [0, 10000, 25000::int]" by simp
  have e: "last (checkAll limiter60 ''default'' [0, 10000, 25000] no_clients) =
     (\<lparr>requests = [0, 10000], burstTokens = 10\<rparr>,
      \<lparr>allowed = True, reason = None, remaining = 9, resetTime = Finite 25000, retryAfter = None\<rparr>)"
    by (simp add: limiter_eval limiter60_def no_clients_def)
  have h4: "(\<lparr>requests = [0, 10000], burstTokens = 10\<rparr>,
      \<lparr>allowed = True, reason = None, remaining = 9, resetTime = Finite 25000, retryAfter = None\<rparr>)
      \<in> set (checkAll limiter60 ''default'' [0, 10000, 25000] no_clients)"
    using e by (metis last_in_set checkAll.simps(2) list.discI)
  show ?thesis
    using spaced_checks_keep_burst [OF h1 h2 h3 h4] h1 h2 h3 e by simp
qed


subsection \<open>Bounds on a caller's record\<close>

lemma refill_tokens_le: "burstTokens (refill L now c) \<le> burst L"
  by (simp add: refill_def Let_def)

lemma refill_tokens_ge:
  assumes "0 \<le> burst L" and "0 \<le> burstTokens c" and "list_all (\<lambda>t. t \<le> now) (requests c)"
  shows "0 \<le> burstTokens (refill L now c)"
proof (cases "filter (\<lambda>t. t > now - 60000) (requests c)")
  case Nil
  with assms show ?thesis by (simp add: refill_def Let_def)
next
  case (Cons r rs)
  have "fold max rs r \<in> set (filter (\<lambda>t. t > now - 60000) (requests c))"
    using fold_max_mem[of rs r] Cons by simp
  then have "fold max rs r \<le> now"
    using assms(3) by (simp add: list_all_iff)
  then have "0 \<le> (now - fold max rs r) div tokenRestoreInterval"
    by (simp add: tokenRestoreInterval_def)
  with assms Cons show ?thesis by (simp add: refill_def Let_def)
qed

lemma refill_ok:
  assumes "0 \<le> burst L" and "client_ok L t0 c" and "t0 \<le> now"
  shows "client_ok L now (refill L now c) \<and> in_window now (refill L now c)"
proof -
  have le: "list_all (\<lambda>t. t \<le> now) (requests c)"
    using assms(2,3) by (auto simp: client_ok_def list_all_iff)
  have "0 \<le> burstTokens (refill L now c)"
    using refill_tokens_ge[OF assms(1) _ le] assms(2) by (simp add: client_ok_def)
  then show ?thesis
    using le by (auto simp: client_ok_def in_window_def refill_tokens_le refill_requests list_all_iff)
qed

lemma decide_ok:
  assumes "client_ok L now c" and "in_window now c"
  shows "client_ok L now (fst (decide L now c)) \<and> in_window now (fst (decide L now c))"
  using assms by (auto simp: decide_def Let_def client_ok_def in_window_def)

lemma checkLimit_lookup:
  "fst (checkLimit L now clientId cs) clientId =
     Some (fst (decide L now (refill L now (getClient L clientId cs))))"
  by (simp add: checkLimit_def split: prod.splits)

lemma checkLimit_other:
  "other \<noteq> clientId \<Longrightarrow> fst (checkLimit L now clientId cs) other = cs other"
  by (simp add: checkLimit_def split: prod.splits)

lemma client_ok_mono: "client_ok L t0 c \<Longrightarrow> t0 \<le> now \<Longrightarrow> client_ok L now c"
  by (auto simp: client_ok_def list_all_iff)

lemma clients_ok_mono: "clients_ok L t0 cs \<Longrightarrow> t0 \<le> now \<Longrightarrow> clients_ok L now cs"
  unfolding clients_ok_def using client_ok_mono by blast

lemma getClient_ok:
  "0 \<le> burst L \<Longrightarrow> clients_ok L t0 cs \<Longrightarrow> client_ok L t0 (getClient L clientId cs)"
  by (auto simp: getClient_def clients_ok_def client_ok_def split: option.splits)

lemma checkLimit_ok:
  assumes "0 \<le> burst L" and "clients_ok L t0 cs" and "t0 \<le> now"
  shows "clients_ok L now (fst (checkLimit L now clientId cs))"
  unfolding clients_ok_def
proof (intro allI impI)
  fix other c
  assume c: "fst (checkLimit L now clientId cs) other = Some c"
  show "client_ok L now c"
  proof (cases "other = clientId")
    case True
    have "client_ok L now (refill L now (getClient L clientId cs)) \<and>
          in_window now (refill L now (getClient L clientId cs))"
      using refill_ok[OF assms(1) getClient_ok[OF assms(1,2)] assms(3)] .
    then have "client_ok L now (fst (decide L now (refill L now (getClient L clientId cs))))"
      using decide_ok by blast
    with c True show ?thesis by (simp add: checkLimit_lookup)
  next
    case False
    with c have "cs other = Some c" by (simp add: checkLimit_other)
    then show ?thesis using clients_ok_mono[OF assms(2,3)] by (simp add: clients_ok_def)
  qed
qed

lemma cleanup_ok: "clients_ok L t0 cs \<Longrightarrow> clients_ok L t0 (cleanup now cs)"
  by (auto simp: clients_ok_def cleanup_def Let_def split: option.splits if_splits)

lemma resetClient_ok: "clients_ok L t0 cs \<Longrightarrow> clients_ok L t0 (fst (resetClient clientId cs))"
  by (auto simp: clients_ok_def resetClient_def split: option.splits if_splits)

lemma step_ok:
  assumes "0 \<le> burst L" and "clients_ok L t0 cs" and "t0 \<le> fst e"
  shows "clients_ok L (fst e) (step L e cs)"
proof (cases e)
  case (Pair now k)
  have mono: "clients_ok L now cs"
    using clients_ok_mono[OF assms(2)] assms(3) Pair by simp
  show ?thesis
  proof (cases k)
    case (CheckLimit clientId)
    with Pair assms show ?thesis by (simp add: checkLimit_ok)
  next
    case Cleanup
    with Pair mono show ?thesis by (simp add: cleanup_ok)
  next
    case (ResetClient clientId)
    with Pair mono show ?thesis by (simp add: resetClient_ok)
  qed
qed

lemma run_ok:
  assumes "0 \<le> burst L"
  shows "clients_ok L t0 cs \<Longrightarrow> sorted (t0 # map fst calls) \<Longrightarrow>
         clients_ok L (last (t0 # map fst calls)) (fold (step L) calls cs)"
proof (induction calls arbitrary: t0 cs)
  case Nil
  then show ?case by simp
next
  case (Cons e calls)
  have "clients_ok L (fst e) (step L e cs)"
    using step_ok[OF assms Cons.prems(1)] Cons.prems(2) by simp
  moreover have "sorted (fst e # map fst calls)"
    using Cons.prems(2) by simp
  ultimately show ?case
    using Cons.IH[of "fst e" "step L e cs"] by simp
qed

text \<open>
  Claim C8, as the code has it. After any history of checks, sweeps and resets at clock
  readings that do not decrease, starting with no caller, a check leaves every caller
  with burst tokens between 0 and the burst capacity, and the checked caller with
  timestamps of the last 60 seconds only. The burst capacity is not negative.
\<close>

theorem checkLimit_state_bounds:
  assumes "0 \<le> burst L" and "sorted (map fst calls @ [now])"
  shows "(\<exists>c. fst (checkLimit L now clientId (fold (step L) calls Map.empty)) clientId = Some c \<and>
              (\<forall>t \<in> set (requests c). now - 60000 < t \<and> t \<le> now)) \<and>
         (\<forall>other c. fst (checkLimit L now clientId (fold (step L) calls Map.empty)) other = Some c
              \<longrightarrow> 0 \<le> burstTokens c \<and> burstTokens c \<le> burst L)"
proof -
  let ?cs = "fold (step L) calls Map.empty"
  let ?t0 = "if calls = [] then now else fst (hd calls)"
  have s: "sorted (?t0 # map fst calls)"
    using assms(2) by (cases calls) (auto simp: sorted_append)
  have "clients_ok L ?t0 Map.empty" by (simp add: clients_ok_def)
  then have ok: "clients_ok L (last (?t0 # map fst calls)) ?cs"
    using run_ok[OF assms(1) _ s] by blast
  have le: "last (?t0 # map fst calls) \<le> now"
    using assms(2) by (cases calls rule: rev_cases) (auto simp: sorted_append)
  have r: "client_ok L now (refill L now (getClient L clientId ?cs)) \<and>
        in_window now (refill L now (getClient L clientId ?cs))"
    using refill_ok[OF assms(1) getClient_ok[OF assms(1) ok] le] .
  have "in_window now (fst (decide L now (refill L now (getClient L clientId ?cs))))"
    using decide_ok r by blast
  then have a: "\<exists>c. fst (checkLimit L now clientId ?cs) clientId = Some c \<and>
              (\<forall>t \<in> set (requests c). now - 60000 < t \<and> t \<le> now)"
    by (simp add: checkLimit_lookup in_window_def list_all_iff)
  have "clients_ok L now (fst (checkLimit L now clientId ?cs))"
    using checkLimit_ok[OF assms(1) ok le] .
  then have b: "\<forall>other c. fst (checkLimit L now clientId ?cs) other = Some c
              \<longrightarrow> 0 \<le> burstTokens c \<and> burstTokens c \<le> burst L"
    by (simp add: clients_ok_def client_ok_def)
  from a b show ?thesis by blast
qed

theorem checkLimit_state_bounds_witness:
  "0 \<le> burst limiter60 \<and> sorted (map fst history1 @ [70000]) \<and>
   fst (checkLimit limiter60 70000 ''default'' (fold (step limiter60) history1 no_clients))
     ''default'' = Some \<lparr>requests = [30000, 70000], burstTokens = 9\<rparr>"
proof -
  have h1: "0 \<le> burst limiter60" by (simp add: limiter60_def)
  have h2: "sorted (map fst history1 @ [70000])" by (simp add: history1_def)
  show ?thesis
    using checkLimit_state_bounds [OF h1 h2, of "''default''"] h1 h2
    by (simp add: history1_def limiter60_def limiter_eval cleanup_def no_clients_def)
qed

text \<open>
  Claim C8 as it is written fails when the clock is set back between two calls. The
  caller is checked at 50000 ms and then twice at 0 ms, with 60 requests a minute and a
  burst of 10. Each check at 0 ms finds the timestamp 50000 in the window and adds
  \<open>(0 - 50000) div 10000 = - 5\<close> tokens: the second one leaves the caller with -2
  burst tokens, and with a timestamp that is not of the last 60 seconds.
\<close>

theorem checkLimit_state_bounds_counterexample:
  "0 \<le> burst limiter60 \<and>
   \<not> sorted (map fst history_back @ [0]) \<and>
   fst (checkLimit limiter60 0 ''default'' (fold (step limiter60) history_back no_clients))
     ''default'' = Some \<lparr>requests = [50000, 0], burstTokens = - 2\<rparr>"
  by (simp add: history_back_def limiter60_def limiter_eval no_clients_def)

section \<open>Properties of the Papertrail client\<close>

declare attempts.simps [simp del]
declare decimal.simps [simp del]

subsection \<open>The retry loop\<close>

lemma attempt_fails_isl: "attempt_fails outcome \<Longrightarrow> isl (attempt_result outcome)"
  by (auto simp: attempt_fails_def attempt_result_def split: fetch_outcome.splits sum.splits)

lemma attempts_retry:
  assumes "attempt \<le> maxRetries c" and "attempt_result (snd (net (fetched w))) = Inl e"
  shows "attempts c net url attempt lastError w =
           attempts c net url (attempt + 1) (Some e)
             (if attempt < maxRetries c
              then sleep (2 ^ (attempt - 1) * 1000) (snd (fetch net url w))
              else snd (fetch net url w))"
  using assms by (subst attempts.simps) (simp add: fetch_def)


lemma attempts_throw:
  assumes "maxRetries c < attempt"
  shows "attempts c net url attempt (Some msg) w =
           (Inl (''Failed after '' @ decimal (maxRetries c) @ '' attempts: '' @ msg), w)"
  using assms by (subst attempts.simps) simp

lemma backoff_trace_last: "a = maxRetries c \<Longrightarrow> backoff_trace c url a = [Fetch url]"
  by (simp add: backoff_trace_def)

lemma backoff_trace_step:
  "a < maxRetries c \<Longrightarrow>
   backoff_trace c url a = Fetch url # Sleep (2 ^ (a - 1) * 1000) # backoff_trace c url (a + 1)"
  by (simp add: backoff_trace_def upt_conv_Cons)

lemma attempts_all_fail:
  "Suc d = maxRetries c + 1 - a \<Longrightarrow>
   \<forall>k \<le> d. isl (attempt_result (snd (net (fetched w + k)))) \<Longrightarrow>
   fst (attempts c net url a lastError w) =
     Inl (''Failed after '' @ decimal (maxRetries c) @ '' attempts: '' @
          projl (attempt_result (snd (net (fetched w + d))))) \<and>
   fetched (snd (attempts c net url a lastError w)) = fetched w + Suc d \<and>
   trace (snd (attempts c net url a lastError w)) = trace w @ backoff_trace c url a"
proof (induction d arbitrary: a lastError w)
  case 0
  then have a: "a = maxRetries c" by simp
  from 0 obtain e where e: "attempt_result (snd (net (fetched w))) = Inl e"
    by (auto simp: isl_def)
  show ?case
    using a e
    by (simp add: attempts_retry[where e = e] attempts_throw backoff_trace_last fetch_def)
next
  case (Suc d)
  then have a: "a < maxRetries c" by simp
  from Suc.prems(2) obtain e where e: "attempt_result (snd (net (fetched w))) = Inl e"
    by (force simp: isl_def)
  define w2 where "w2 = sleep (2 ^ (a - 1) * 1000) (snd (fetch net url w))"
  have f: "fetched w2 = Suc (fetched w)"
    and t: "trace w2 = trace w @ [Fetch url, Sleep (2 ^ (a - 1) * 1000)]"
    by (simp_all add: w2_def sleep_def fetch_def)
  have d: "Suc d = maxRetries c + 1 - (a + 1)" using Suc.prems(1) by simp
  have all: "\<forall>k \<le> d. isl (attempt_result (snd (net (fetched w2 + k))))"
  proof (intro allI impI)
    fix k assume "k \<le> d"
    then have "Suc k \<le> Suc d" by simp
    then have "isl (attempt_result (snd (net (fetched w + Suc k))))"
      using Suc.prems(2) by blast
    then show "isl (attempt_result (snd (net (fetched w2 + k))))"
      by (simp add: f)
  qed
  have step: "attempts c net url a lastError w = attempts c net url (a + 1) (Some e) w2"
    using attempts_retry[where e = e] a e by (simp add: w2_def)
  show ?case
    using Suc.IH[OF d all, of "Some e"] a
    by (simp add: step f t backoff_trace_step)
qed

lemma makeRequest_all_fail:
  assumes "0 < maxRetries c"
      and "\<forall>k < maxRetries c. attempt_fails (snd (net (fetched w + k)))"
  shows "fst (makeRequest c net url w) =
           Inl (''Failed after '' @ decimal (maxRetries c) @ '' attempts: '' @
                projl (attempt_result (snd (net (fetched w + (maxRetries c - 1)))))) \<and>
         fetched (snd (makeRequest c net url w)) = fetched w + maxRetries c \<and>
         trace (snd (makeRequest c net url w)) = trace w @ backoff_trace c url 1"
proof -
  obtain d where d: "maxRetries c = Suc d" using assms(1) by (cases "maxRetries c") simp_all
  have "\<forall>k \<le> d. isl (attempt_result (snd (net (fetched w + k))))"
    using assms(2) d by (simp add: attempt_fails_isl)
  moreover have "Suc d = maxRetries c + 1 - 1" using d by simp
  ultimately show ?thesis
    using attempts_all_fail[of d c 1 net w url None] d by (simp add: makeRequest_def)
qed




lemmas client_eval =
  makeRequest_def attempts.simps decimal.simps number_text_def fetch_def sleep_def
  attempt_result_def response_ok_def searchLogs_def searchLogs_cjs_def search_endpoint_def
  found_def failure_def events_length_def or_default_def when_truthy_def
  getDefaultMinTime_def getDefaultMaxTime_def



subsection \<open>The result of a search\<close>

lemma searchLogs_cases:
  "fst (searchLogs c net qry options w) =
     (case fst (makeRequest c net (search_endpoint qry options w) w) of
        Inl msg \<Rightarrow> failure msg qry
      | Inr JsonNull \<Rightarrow> failure ''Cannot read properties of null (reading 'events')'' qry
      | Inr (JsonObject evs tot) \<Rightarrow>
          found qry options evs (events_length evs)
            (snd (makeRequest c net (search_endpoint qry options w) w)))"
  by (simp add: searchLogs_def split: prod.splits sum.splits payload.splits)

lemma searchLogs_cjs_cases:
  "fst (searchLogs_cjs c net qry options w) =
     (case fst (makeRequest c net (search_endpoint qry options w) w) of
        Inl msg \<Rightarrow> failure msg qry
      | Inr JsonNull \<Rightarrow> failure ''Cannot read properties of null (reading 'events')'' qry
      | Inr (JsonObject evs tot) \<Rightarrow>
          found qry options evs (or_default tot (events_length evs))
            (snd (makeRequest c net (search_endpoint qry options w) w)))"
  by (simp add: searchLogs_cjs_def split: prod.splits sum.splits payload.splits)

text \<open>
  Claim C1. \<^verbatim>\<open>searchLogs\<close> returns a result whatever the network does: every error thrown
  inside it is a branch of its \<^verbatim>\<open>catch\<close>. A result is either a success, or a failure
  with an error message, no events, total 0 and no time range. An error thrown by
  \<^verbatim>\<open>makeRequest\<close> becomes the failure with that error's message, so that a search whose
  attempts all fail is a failure. Both variants of the client.
\<close>

theorem searchLogs_never_partial:
  "(\<forall>r. r = fst (searchLogs c net qry options w) \<or> r = fst (searchLogs_cjs c net qry options w) \<longrightarrow>
       success r \<and> error r = None \<or>
       \<not> success r \<and> (\<exists>msg. error r = Some msg) \<and> events r = [] \<and> total r = 0 \<and>
         timeRange r = None) \<and>
   (\<forall>msg. fst (makeRequest c net (search_endpoint qry options w) w) = Inl msg \<longrightarrow>
       fst (searchLogs c net qry options w) = failure msg qry \<and>
       fst (searchLogs_cjs c net qry options w) = failure msg qry) \<and>
   (0 < maxRetries c \<and> (\<forall>k < maxRetries c. attempt_fails (snd (net (fetched w + k)))) \<longrightarrow>
       \<not> success (fst (searchLogs c net qry options w)) \<and>
       \<not> success (fst (searchLogs_cjs c net qry options w)))"
proof (intro conjI allI impI)
  fix r
  assume "r = fst (searchLogs c net qry options w) \<or> r = fst (searchLogs_cjs c net qry options w)"
  then show "success r \<and> error r = None \<or>
       \<not> success r \<and> (\<exists>msg. error r = Some msg) \<and> events r = [] \<and> total r = 0 \<and>
         timeRange r = None"
    by (auto simp: searchLogs_cases searchLogs_cjs_cases failure_def found_def
             split: sum.splits payload.splits)
next
  fix msg
  assume m: "fst (makeRequest c net (search_endpoint qry options w) w) = Inl msg"
  show "fst (searchLogs c net qry options w) = failure msg qry"
    by (simp add: searchLogs_cases m)
  show "fst (searchLogs_cjs c net qry options w) = failure msg qry"
    by (simp add: searchLogs_cjs_cases m)
next
  assume a: "0 < maxRetries c \<and> (\<forall>k < maxRetries c. attempt_fails (snd (net (fetched w + k))))"
  then have "isl (fst (makeRequest c net (search_endpoint qry options w) w))"
    using makeRequest_all_fail[of c net w "search_endpoint qry options w"] by simp
  then obtain msg where m: "fst (makeRequest c net (search_endpoint qry options w) w) = Inl msg"
    by (auto simp: isl_def)
  show "\<not> success (fst (searchLogs c net qry options w))"
    by (simp add: searchLogs_cases m failure_def)
  show "\<not> success (fst (searchLogs_cjs c net qry options w))"
    by (simp add: searchLogs_cjs_cases m failure_def)
qed

theorem searchLogs_never_partial_witness:
  "fst (makeRequest client3 net500 (search_endpoint error_query no_options world0) world0) =
     Inl ''Failed after 3 attempts: Papertrail API error (500): Internal Server Error'' \<and>
   fst (searchLogs client3 net500 error_query no_options world0) =
     \<lparr>success = False,
      error = Some ''Failed after 3 attempts: Papertrail API error (500): Internal Server Error'',
      events = [], total = 0, query = error_query, timeRange = None, metadata = None\<rparr>"
proof -
  have h: "fst (makeRequest client3 net500 (search_endpoint error_query no_options world0) world0) =
     Inl ''Failed after 3 attempts: Papertrail API error (500): Internal Server Error''"
    by (simp add: client_eval client3_def world0_def net500_def no_options_def)
  show ?thesis
    using searchLogs_never_partial [of client3 net500 error_query no_options world0] h
    by (simp add: failure_def)
qed

text \<open>
  With no time given, the request carries the defaults of the clock reading when it is
  built, and a successful result the defaults of the clock reading when it is returned.
\<close>

lemma searchLogs_default_times:
  assumes "opt_minTime options = None" and "opt_maxTime options = None"
  shows "(\<exists>p. search_endpoint qry options w = EventsSearch p \<and>
              min_time p = clock w div 1000 - 3600 \<and> max_time p = clock w div 1000) \<and>
         (success (fst (searchLogs c net qry options w)) \<longrightarrow>
            timeRange (fst (searchLogs c net qry options w)) =
              Some \<lparr>minTime = clock (snd (searchLogs c net qry options w)) div 1000 - 3600,
                    maxTime = clock (snd (searchLogs c net qry options w)) div 1000\<rparr>)"
proof -
  have d: "(t - 60 * 60 * 1000) div 1000 = t div 1000 - 3600" for t :: int
    by simp
  show ?thesis
    using assms
    by (auto simp: search_endpoint_def searchLogs_def found_def failure_def or_default_def
                   getDefaultMinTime_def getDefaultMaxTime_def d
             split: prod.splits sum.splits payload.splits)
qed

text \<open>
  Claim C4 at a failing input. No \<^verbatim>\<open>minTime\<close> or \<^verbatim>\<open>maxTime\<close>; the clock reads
  1700000000000 ms; the first fetch times out after 400 ms, the client sleeps 1000 ms
  and the second fetch answers after 100 ms. Both requests carry
  \<^verbatim>\<open>min_time = 1699996400\<close> and \<^verbatim>\<open>max_time = 1700000000\<close>, and the result reports the
  time range 1699996401 to 1700000001: the defaults are computed again when the result
  is built, from the clock as it reads then.
\<close>

theorem searchLogs_timeRange_drift:
  "trace (snd (searchLogs client3 (net_retry (JsonObject (Some [event1]) None)) error_query no_options world0)) =
     [Fetch (EventsSearch \<lparr>q = error_query, min_time = 1699996400, max_time = 1700000000,
                           limit = 100, system_id = None, group_id = None\<rparr>),
      Sleep 1000,
      Fetch (EventsSearch \<lparr>q = error_query, min_time = 1699996400, max_time = 1700000000,
                           limit = 100, system_id = None, group_id = None\<rparr>)] \<and>
   success (fst (searchLogs client3 (net_retry (JsonObject (Some [event1]) None)) error_query no_options world0)) \<and>
   timeRange (fst (searchLogs client3 (net_retry (JsonObject (Some [event1]) None)) error_query no_options world0)) =
     Some \<lparr>minTime = 1699996401, maxTime = 1700000001\<rparr>"
  by (simp add: client_eval client3_def world0_def net_retry_def no_options_def)

text \<open>
  Claim C5 at a failing input. The body of the response has one event and
  \<^verbatim>\<open>total_events = 5\<close>: the client of the ES module reports the total 1, the CommonJS
  client the total 5.
\<close>

theorem searchLogs_total_ignores_payload_total:
  "success (fst (searchLogs client3 (net200 (JsonObject (Some [event1]) (Some 5))) error_query no_options world0)) \<and>
   total (fst (searchLogs client3 (net200 (JsonObject (Some [event1]) (Some 5))) error_query no_options world0)) = 1 \<and>
   total (fst (searchLogs_cjs client3 (net200 (JsonObject (Some [event1]) (Some 5))) error_query no_options world0)) = 5"
  by (simp add: client_eval client3_def world0_def net200_def no_options_def)

section \<open>Properties of the search tool\<close>

lemma attempts_trace:
  "\<exists>es. trace (snd (attempts c net url a lastError w)) = trace w @ es \<and>
        set es \<subseteq> insert (Fetch url) (range Sleep)"
proof (induction c net url a lastError w rule: attempts.induct)
  case (1 c net url attempt lastError w)
  show ?case
  proof (cases "attempt \<le> maxRetries c")
    case False
    then show ?thesis
      by (subst attempts.simps) (simp split: option.splits)
  next
    case True
    show ?thesis
    proof (cases "attempt_result (snd (net (fetched w)))")
      case (Inr json)
      then show ?thesis
        using True by (subst attempts.simps) (simp add: fetch_def)
    next
      case (Inl e)
      let ?w1 = "snd (fetch net url w)"
      let ?w2 = "if attempt < maxRetries c then sleep (2 ^ (attempt - 1) * 1000) ?w1 else ?w1"
      have "\<exists>es. trace (snd (attempts c net url (attempt + 1) (Some e) ?w2)) = trace ?w2 @ es \<and>
                 set es \<subseteq> insert (Fetch url) (range Sleep)"
        using "1.IH"[OF True, of "fetch net url w" "fst (fetch net url w)" ?w1 e] Inl
        by (simp add: fetch_def)
      then obtain es where es: "trace (snd (attempts c net url (attempt + 1) (Some e) ?w2)) = trace ?w2 @ es"
        and sub: "set es \<subseteq> insert (Fetch url) (range Sleep)" by blast
      have "\<exists>pre. trace ?w2 = trace w @ pre \<and> set pre \<subseteq> insert (Fetch url) (range Sleep)"
        by (auto simp: fetch_def sleep_def)
      then obtain pre where pre: "trace ?w2 = trace w @ pre"
        and psub: "set pre \<subseteq> insert (Fetch url) (range Sleep)" by blast
      have "attempts c net url attempt lastError w = attempts c net url (attempt + 1) (Some e) ?w2"
        using True Inl by (subst attempts.simps) (simp add: fetch_def)
      then have "trace (snd (attempts c net url attempt lastError w)) = trace w @ (pre @ es)"
        using es pre by simp
      moreover have "set (pre @ es) \<subseteq> insert (Fetch url) (range Sleep)"
        using sub psub by simp
      ultimately show ?thesis by blast
    qed
  qed
qed

lemma sent_limits_one:
  "set es \<subseteq> insert (Fetch (EventsSearch p)) (range Sleep) \<Longrightarrow>
   set (sent_limits es) \<subseteq> {limit p}"
  by (induction es rule: sent_limits.induct) auto

lemma searchLogs_trace:
  "\<exists>sent. trace (snd (searchLogs c net qry options w)) = trace w @ sent \<and>
          set (sent_limits sent) \<subseteq> {or_default (opt_limit options) 100}"
proof -
  obtain es where es: "trace (snd (makeRequest c net (search_endpoint qry options w) w)) = trace w @ es"
    and sub: "set es \<subseteq> insert (Fetch (search_endpoint qry options w)) (range Sleep)"
    using attempts_trace[of c net "search_endpoint qry options w" 1 None w]
    by (auto simp: makeRequest_def)
  obtain p where p: "search_endpoint qry options w = EventsSearch p"
    and l: "limit p = or_default (opt_limit options) 100"
    by (simp add: search_endpoint_def)
  have "set (sent_limits es) \<subseteq> {or_default (opt_limit options) 100}"
    using sent_limits_one[of es p] sub p l by simp
  moreover have "snd (searchLogs c net qry options w) =
                 snd (makeRequest c net (search_endpoint qry options w) w)"
    by (simp add: searchLogs_def split: prod.splits sum.splits payload.splits)
  ultimately show ?thesis using es by auto
qed

lemma validateArgs_limit: "validateArgs args = [] \<Longrightarrow> arg_limit args = None"
  by (cases "arg_limit args") (simp_all add: validateArgs_def check_integer_def check_type_def)

text \<open>
  Without an arguments object the rate limiter is asked and the call throws.
\<close>

lemma executeSearchLogs_absent:
  "executeSearchLogs L client net parseDate None clientId (cs, w) =
     (Inl ''Cannot read properties of undefined (reading 'query')'',
      fst (checkLimit L (clock w) clientId cs), w)"
  by (simp add: executeSearchLogs_def rateLimitMiddleware_def split: prod.splits)

lemma executeSearchLogs_world:
  assumes "executeSearchLogs L client net parseDate (Some args) clientId (cs, w) = (r, cs', w')"
  shows "(w' = w \<and> (\<exists>msg. r = Inr (ToolFailure msg ''RATE_LIMIT_EXCEEDED'') \<or>
                          r = Inr (ToolFailure msg ''INVALID_ARGUMENTS''))) \<or>
         (validateArgs args = [] \<and>
          (\<exists>qry options. opt_limit options = Some (options_limit (arg_limit args)) \<and>
                          w' = snd (searchLogs client net qry options w)))"
proof -
  obtain limited cs1 where rl: "rateLimitMiddleware L (clock w) clientId cs = (limited, cs1)"
    by (cases "rateLimitMiddleware L (clock w) clientId cs")
  show ?thesis
  proof (cases limited)
    case (Inl e)
    then have "err_code e = Some ''RATE_LIMIT_EXCEEDED''"
      using rl by (auto simp: rateLimitMiddleware_def split: prod.splits if_splits)
    then show ?thesis
      using assms rl Inl by (auto simp: executeSearchLogs_def formatMcpError_def)
  next
    case (Inr d)
    show ?thesis
    proof (cases "query_missing (arg_query args)")
      case True
      then show ?thesis
        using assms rl Inr
        by (auto simp: executeSearchLogs_def formatMcpError_def createError_def)
    next
      case False
      show ?thesis
      proof (cases "validateArgs args")
        case (Cons e es)
        then show ?thesis
          using assms rl Inr False
          by (auto simp: executeSearchLogs_def formatMcpError_def createError_def)
      next
        case Nil
        show ?thesis
        proof (cases "parse_time parseDate invalid_minTime_message (arg_minTime args)")
          case (Inl e)
          then have "err_code e = Some ''INVALID_ARGUMENTS''"
            by (auto simp: parse_time_def createError_def split: option.splits if_splits)
          then show ?thesis
            using assms rl \<open>limited = Inr d\<close> False Nil Inl
            by (auto simp: executeSearchLogs_def formatMcpError_def)
        next
          case minT: (Inr minT)
          show ?thesis
          proof (cases "parse_time parseDate invalid_maxTime_message (arg_maxTime args)")
            case (Inl e)
            then have "err_code e = Some ''INVALID_ARGUMENTS''"
              by (auto simp: parse_time_def createError_def split: option.splits if_splits)
            then show ?thesis
              using assms rl \<open>limited = Inr d\<close> False Nil minT Inl
              by (auto simp: executeSearchLogs_def formatMcpError_def)
          next
            case maxT: (Inr maxT)
            let ?options = "\<lparr>opt_minTime = minT, opt_maxTime = maxT,
                              opt_limit = Some (options_limit (arg_limit args)),
                              opt_system_id = when_truthy (arg_systemId args),
                              opt_group_id = when_truthy (arg_groupId args)\<rparr>"
            let ?qry = "case arg_query args of None \<Rightarrow> [] | Some qry \<Rightarrow> qry"
            have "w' = snd (searchLogs client net ?qry ?options w)"
              using assms rl \<open>limited = Inr d\<close> False Nil minT maxT
              by (simp add: executeSearchLogs_def Let_def case_prod_beta split: if_splits)
            moreover have "opt_limit ?options = Some (options_limit (arg_limit args))" by simp
            ultimately show ?thesis using Nil by blast
          qed
        qed
      qed
    qed
  qed
qed

text \<open>
  Claim C6, as the code has it. Every search request \<^verbatim>\<open>executeSearchLogs\<close> sends carries
  a limit between 1 and 1000, and the limit 100 when the caller gave none. A limit
  outside 1 to 1000 is not clamped: the call fails, by the validation of the arguments
  unless the rate limit stops it before, and nothing is sent. A call without an
  arguments object sends nothing.
\<close>

theorem executeSearchLogs_sent_limit:
  assumes "executeSearchLogs L client net parseDate arguments clientId (cs, w) = (r, cs', w')"
  shows "\<exists>sent. trace w' = trace w @ sent \<and>
           (\<forall>l \<in> set (sent_limits sent). 1 \<le> l \<and> l \<le> 1000) \<and>
           ((\<forall>args. arguments = Some args \<longrightarrow> arg_limit args = None) \<longrightarrow>
              (\<forall>l \<in> set (sent_limits sent). l = 100)) \<and>
           (\<forall>args n. arguments = Some args \<and> arg_limit args = Some n \<and> (n < 1 \<or> 1000 < n) \<longrightarrow>
                sent = [] \<and> (\<exists>msg. r = Inr (ToolFailure msg ''INVALID_ARGUMENTS'') \<or>
                                    r = Inr (ToolFailure msg ''RATE_LIMIT_EXCEEDED''))) \<and>
           (arguments = None \<longrightarrow> sent = [])"
proof (cases arguments)
  case None
  then have "w' = w" using assms by (simp add: executeSearchLogs_absent)
  then have "trace w' = trace w @ []" by simp
  then show ?thesis using None by (intro exI[of _ "[]"]) simp
next
  case (Some args)
  consider
    (stopped) "w' = w" "\<exists>msg. r = Inr (ToolFailure msg ''RATE_LIMIT_EXCEEDED'') \<or>
                              r = Inr (ToolFailure msg ''INVALID_ARGUMENTS'')"
  | (searched) qry options where "validateArgs args = []"
      "opt_limit options = Some (options_limit (arg_limit args))"
      "w' = snd (searchLogs client net qry options w)"
    using executeSearchLogs_world[of L client net parseDate args clientId cs w r cs' w'] assms Some
    by blast
  then show ?thesis
  proof cases
    case stopped
    then have "trace w' = trace w @ []" by simp
    moreover have "\<exists>msg. r = Inr (ToolFailure msg ''INVALID_ARGUMENTS'') \<or>
                         r = Inr (ToolFailure msg ''RATE_LIMIT_EXCEEDED'')"
      using stopped(2) by blast
    ultimately show ?thesis by (intro exI[of _ "[]"]) simp
  next
    case searched
    have none: "arg_limit args = None" using validateArgs_limit[OF searched(1)] .
    then have "or_default (opt_limit options) 100 = 100"
      using searched(2) by (simp add: options_limit_def or_default_def)
    then obtain sent where "trace w' = trace w @ sent" and "set (sent_limits sent) \<subseteq> {100}"
      using searchLogs_trace[of client net qry options w] searched(3) by auto
    then show ?thesis using none Some by (intro exI[of _ sent]) auto
  qed
qed

lemmas tool_eval =
  executeSearchLogs_def rateLimitMiddleware_def query_missing_def trim_def is_space_def
  validateArgs_def check_required_def check_string_def check_type_def check_integer_def
  parse_time_def options_limit_def formatMcpError_def createError_def quoted_def
  answer_code_def

theorem executeSearchLogs_sent_limit_witness:
  "fst (executeSearchLogs limiter60 client3 (net200 (JsonObject (Some []) None)) no_dates
           (Some (query_only (Some error_query))) ''default'' (no_clients, world0)) =
     Inr (ToolSuccess
            \<lparr>success = True, error = None, events = [], total = 0, query = error_query,
             timeRange = Some \<lparr>minTime = 1699996400, maxTime = 1700000000\<rparr>,
             metadata = Some \<lparr>searchTime = 1700000000100, meta_limit = 100\<rparr>\<rparr>) \<and>
   sent_limits (trace (snd (snd (executeSearchLogs limiter60 client3
           (net200 (JsonObject (Some []) None)) no_dates
           (Some (query_only (Some error_query))) ''default'' (no_clients, world0))))) = [100]"
proof -
  have e: "executeSearchLogs limiter60 client3 (net200 (JsonObject (Some []) None)) no_dates
           (Some (query_only (Some error_query))) ''default'' (no_clients, world0) =
        (fst (executeSearchLogs limiter60 client3 (net200 (JsonObject (Some []) None)) no_dates
           (Some (query_only (Some error_query))) ''default'' (no_clients, world0)),
         fst (snd (executeSearchLogs limiter60 client3 (net200 (JsonObject (Some []) None)) no_dates
           (Some (query_only (Some error_query))) ''default'' (no_clients, world0))),
         snd (snd (executeSearchLogs limiter60 client3 (net200 (JsonObject (Some []) None)) no_dates
           (Some (query_only (Some error_query))) ''default'' (no_clients, world0))))"
    by simp
  show ?thesis
    using executeSearchLogs_sent_limit [OF e]
    by (simp add: tool_eval limiter_eval limiter60_def no_clients_def client_eval client3_def
          world0_def net200_def no_options_def query_only_def error_query_def no_dates_def)
qed

text \<open>
  Claim C6 as it is written fails. \<^verbatim>\<open>searchLogs\<close> given the limit 5000 sends the limit
  5000. \<^verbatim>\<open>executeSearchLogs\<close> given the limit 5000 fails with \<^verbatim>\<open>INVALID_ARGUMENTS\<close> and
  sends nothing. Line 77 leaves the limit -5 as it is.
\<close>

theorem limit_clamp_counterexample:
  "sent_limits (trace (snd (searchLogs client3 (net200 (JsonObject (Some []) None)) error_query
       (no_options\<lparr>opt_limit := Some 5000\<rparr>) world0))) = [5000] \<and>
   answer_code (fst (executeSearchLogs limiter60 client3 (net200 (JsonObject (Some []) None))
       no_dates (Some ((query_only (Some error_query))\<lparr>arg_limit := Some 5000\<rparr>)) ''default''
       (no_clients, world0))) = Some ''INVALID_ARGUMENTS'' \<and>
   trace (snd (snd (executeSearchLogs limiter60 client3 (net200 (JsonObject (Some []) None))
       no_dates (Some ((query_only (Some error_query))\<lparr>arg_limit := Some 5000\<rparr>)) ''default''
       (no_clients, world0)))) = [] \<and>
   options_limit (Some (- 5)) = - 5"
  by (simp add: tool_eval limiter_eval limiter60_def no_clients_def client_eval client3_def
        world0_def net200_def no_options_def query_only_def error_query_def no_dates_def)

text \<open>
  With an arguments object whose query is missing, empty or blank, and a check the rate
  limiter allows, \<^verbatim>\<open>executeSearchLogs\<close> answers \<^verbatim>\<open>INVALID_ARGUMENTS\<close>, and the caller's
  record is the one the check left: the clock reading is added to the window and one
  burst token is taken.
\<close>

lemma empty_query_consumes_capacity:
  assumes "query_missing (arg_query args)"
      and "allowed (snd (checkLimit L (clock w) clientId cs))"
  shows "(\<exists>msg. executeSearchLogs L client net parseDate (Some args) clientId (cs, w) =
            (Inr (ToolFailure msg ''INVALID_ARGUMENTS''),
             fst (checkLimit L (clock w) clientId cs), w)) \<and>
         fst (checkLimit L (clock w) clientId cs) clientId =
           Some \<lparr>requests = requests (refill L (clock w) (getClient L clientId cs)) @ [clock w],
                 burstTokens = burstTokens (refill L (clock w) (getClient L clientId cs)) - 1\<rparr>"
proof -
  obtain cs' d where cl: "checkLimit L (clock w) clientId cs = (cs', d)"
    by (cases "checkLimit L (clock w) clientId cs")
  with assms(2) have d: "allowed d" by simp
  have "executeSearchLogs L client net parseDate (Some args) clientId (cs, w) =
          (Inr (formatMcpError (createError ''INVALID_ARGUMENTS'' query_required_message)),
           cs', w)"
    using assms(1) cl d by (simp add: executeSearchLogs_def rateLimitMiddleware_def)
  then have a: "\<exists>msg. executeSearchLogs L client net parseDate (Some args) clientId (cs, w) =
            (Inr (ToolFailure msg ''INVALID_ARGUMENTS''),
             fst (checkLimit L (clock w) clientId cs), w)"
    using cl by (simp add: formatMcpError_def createError_def)
  have b: "fst (checkLimit L (clock w) clientId cs) clientId =
           Some \<lparr>requests = requests (refill L (clock w) (getClient L clientId cs)) @ [clock w],
                 burstTokens = burstTokens (refill L (clock w) (getClient L clientId cs)) - 1\<rparr>"
    using cl d by (auto simp: checkLimit_def decide_def Let_def split: if_splits prod.splits)
  from a b show ?thesis by blast
qed

text \<open>A query of a space and a no-break space is blank.\<close>

lemma blank_query_answer:
  "query_missing (Some blank_query) \<and>
   answer_code (fst (executeSearchLogs limiter60 client3 net500 no_dates
       (Some (query_only (Some blank_query))) ''default'' (no_clients, world0))) =
     Some ''INVALID_ARGUMENTS'' \<and>
   fst (snd (executeSearchLogs limiter60 client3 net500 no_dates
       (Some (query_only (Some blank_query))) ''default'' (no_clients, world0))) ''default'' =
     Some \<lparr>requests = [1700000000000], burstTokens = 9\<rparr>"
  by (simp add: tool_eval limiter_eval limiter60_def no_clients_def world0_def query_only_def
        blank_query_def)

text \<open>
  Claim C10 at a failing input. The call passes no arguments object, so the query is
  missing, and the caller is seen for the first time, so the rate limiter allows the
  call. The clock reading is added to the caller's window and one burst token is taken,
  but the call does not answer \<^verbatim>\<open>INVALID_ARGUMENTS\<close>: it throws the TypeError of its
  \<^verbatim>\<open>catch\<close> block.
\<close>

theorem executeSearchLogs_without_arguments:
  "allowed (snd (checkLimit limiter60 (clock world0) ''default'' no_clients)) \<and>
   fst (executeSearchLogs limiter60 client3 net500 no_dates None ''default''
          (no_clients, world0)) =
     Inl ''Cannot read properties of undefined (reading 'query')'' \<and>
   answer_code (fst (executeSearchLogs limiter60 client3 net500 no_dates None ''default''
          (no_clients, world0))) = None \<and>
   fst (snd (executeSearchLogs limiter60 client3 net500 no_dates None ''default''
          (no_clients, world0))) ''default'' =
     Some \<lparr>requests = [1700000000000], burstTokens = 9\<rparr>"
  by (simp add: tool_eval limiter_eval limiter60_def no_clients_def world0_def)

end
